theory Spec2Isabelle
  imports Main
begin

section \<open>Data model\<close>

text \<open>
  The module exports two plugin constructors, \<open>supabase\<close> and \<open>anon_supabase\<close>. Each
  returns an Elysia plugin whose \<open>resolve\<close> handler closes over the three parameters
  \<open>supabase_url\<close>, \<open>supabase_anon_key\<close> and \<open>options\<close>. A value of type
  \<open>string | undefined\<close> (or \<open>string | null\<close> for \<open>Headers.get\<close>) is a \<open>string option\<close>.
\<close>

text \<open>\<open>process.env\<close>, as the module declares it: the two variables it consumes.\<close>

record process_env =
  SUPABASE_URL :: "string option"
  SUPABASE_ANON_KEY :: "string option"

text \<open>
  \<open>SupabaseClientOptions\<close>: the handler touches \<open>options.global\<close> and, inside it,
  \<open>headers\<close> (a \<open>Record<string, string>\<close>). Every other key of either object is carried by
  an object spread; those keys are kept as a map to values of an opaque type \<open>'v\<close>.
\<close>

type_synonym header_record = "string \<rightharpoonup> string"

record 'v global_options =
  headers :: "header_record option"
  global_other :: "string \<rightharpoonup> 'v"

record 'v client_options =
  global :: "'v global_options option"
  options_other :: "string \<rightharpoonup> 'v"

text \<open>
  \<open>createClient\<close> is the imported factory of supabase-js. The client it returns is
  identified with the three arguments it was created from.
\<close>

record 'v client =
  client_url :: string
  client_key :: string
  client_options :: "'v client_options"

definition createClient :: "string \<Rightarrow> string \<Rightarrow> 'v client_options \<Rightarrow> 'v client" where
  "createClient url key opts = \<lparr>client_url = url, client_key = key, client_options = opts\<rparr>"

text \<open>
  The answer of \<open>supabase.auth.getUser()\<close>: \<open>resp.data.user\<close> and \<open>resp.error\<close>, both
  nullable. What the backend answers for a client is a parameter of the handler.
\<close>

record ('u, 'e) user_response =
  data_user :: "'u option"
  error :: "'e option"

text \<open>The request, as far as the handler reads it: \<open>request.headers.get(name)\<close>.\<close>

record request =
  headers_get :: "string \<Rightarrow> string option"

text \<open>
  What the handler returns: \<open>error(status, message)\<close> (the message is absent in
  \<open>error(401)\<close>) or the context extension \<open>{ supabase, user }\<close>.
\<close>

datatype ('v, 'u) outcome =
  ErrorResponse nat "string option"
| Resolved "'v client" "'u option"

text \<open>The calls into supabase-js that a run of the handler makes, in order.\<close>

datatype 'v call =
  CreateClient string string "'v client_options"
| GetUser "'v client"

text \<open>
  The plugin \<open>new Elysia({ name }).resolve({ as }, handler)\<close>. The handler runs when a
  request arrives: it is given the \<open>process.env\<close> of that moment, the backend's answers
  and the request, and returns its outcome with the calls it made.
\<close>

record ('v, 'u, 'e) elysia =
  name :: string
  scope_as :: string
  resolve :: "process_env \<Rightarrow> ('v client \<Rightarrow> ('u, 'e) user_response) \<Rightarrow> request
                \<Rightarrow> ('v, 'u) outcome \<times> 'v call list"

section \<open>Operations\<close>

text \<open>JavaScript truthiness of a nullable string: \<open>!x\<close> holds for null, undefined and \<open>""\<close>.\<close>

definition truthy :: "string option \<Rightarrow> bool" where
  "truthy x = (case x of None \<Rightarrow> False | Some s \<Rightarrow> s \<noteq> [])"

text \<open>A default parameter \<open>p = d\<close>: the default is taken exactly when the argument is undefined.\<close>

definition default_param :: "'a option \<Rightarrow> 'a option \<Rightarrow> 'a option" where
  "default_param arg dflt = (case arg of None \<Rightarrow> dflt | Some v \<Rightarrow> Some v)"

text \<open>\<open>options?.global\<close>\<close>

definition optional_global :: "'v client_options option \<Rightarrow> 'v global_options option" where
  "optional_global options = (case options of None \<Rightarrow> None | Some opts \<Rightarrow> global opts)"

text \<open>
  The third argument of \<open>createClient\<close>:
  \<^verbatim>\<open>{ ...options, global: { ...options?.global, headers: { Authorization } } }\<close>.
  Spreading undefined adds no key; a key written after a spread replaces the spread's.
\<close>

definition request_options :: "'v client_options option \<Rightarrow> string \<Rightarrow> 'v client_options" where
  "request_options options Authorization =
     \<lparr>global = Some
        \<lparr>headers = Some [''Authorization'' \<mapsto> Authorization],
         global_other = (case optional_global options of None \<Rightarrow> Map.empty
                         | Some g \<Rightarrow> global_other g)\<rparr>,
      options_other = (case options of None \<Rightarrow> Map.empty | Some opts \<Rightarrow> options_other opts)\<rparr>"

text \<open>The handler of \<open>supabase\<close> (the strict guard).\<close>

definition supabase_handler ::
  "string option \<Rightarrow> string option \<Rightarrow> 'v client_options option
    \<Rightarrow> ('v client \<Rightarrow> ('u, 'e) user_response) \<Rightarrow> request \<Rightarrow> ('v, 'u) outcome \<times> 'v call list" where
  "supabase_handler supabase_url supabase_anon_key options getUser request =
     (if \<not> truthy supabase_url then
        (ErrorResponse 500 (Some ''SUPABASE_URL is not set''), [])
      else if \<not> truthy supabase_anon_key then
        (ErrorResponse 500 (Some ''SUPABASE_ANON_KEY is not set''), [])
      else
        let Authorization = headers_get request ''Authorization'' in
        if \<not> truthy Authorization then
          (ErrorResponse 401 (Some ''Authorization header is missing''), [])
        else
          let opts = request_options options (the Authorization);
              supabase = createClient (the supabase_url) (the supabase_anon_key) opts;
              resp = getUser supabase;
              calls = [CreateClient (the supabase_url) (the supabase_anon_key) opts,
                       GetUser supabase]
          in if error resp \<noteq> None then (ErrorResponse 401 None, calls)
             else (Resolved supabase (data_user resp), calls))"

text \<open>The handler of \<open>anon_supabase\<close> (the permissive guard): \<open>resp.error\<close> is not read.\<close>

definition anon_supabase_handler ::
  "string option \<Rightarrow> string option \<Rightarrow> 'v client_options option
    \<Rightarrow> ('v client \<Rightarrow> ('u, 'e) user_response) \<Rightarrow> request \<Rightarrow> ('v, 'u) outcome \<times> 'v call list" where
  "anon_supabase_handler supabase_url supabase_anon_key options getUser request =
     (if \<not> truthy supabase_url then
        (ErrorResponse 500 (Some ''SUPABASE_URL is not set''), [])
      else if \<not> truthy supabase_anon_key then
        (ErrorResponse 500 (Some ''SUPABASE_ANON_KEY is not set''), [])
      else
        let Authorization = headers_get request ''Authorization'' in
        if \<not> truthy Authorization then
          (ErrorResponse 401 (Some ''Authorization header is missing''), [])
        else
          let opts = request_options options (the Authorization);
              supabase = createClient (the supabase_url) (the supabase_anon_key) opts;
              resp = getUser supabase;
              calls = [CreateClient (the supabase_url) (the supabase_anon_key) opts,
                       GetUser supabase]
          in (Resolved supabase (data_user resp), calls))"

text \<open>
  The two constructors. \<open>supabase_url\<close>, \<open>supabase_anon_key\<close> and \<open>options\<close> are
  positional parameters in the older module and keys of one destructured object
  parameter (itself defaulting to \<open>{}\<close>) in the newer one; in both, an argument that is
  omitted or undefined is \<open>None\<close> here. The default parameters read \<open>process.env\<close>
  (\<open>env\<close>) when the constructor is called; the handler closes over the resulting values
  and does not read the environment it is run in (\<open>env_now\<close>).
\<close>

definition supabase ::
  "process_env \<Rightarrow> string option \<Rightarrow> string option \<Rightarrow> 'v client_options option
    \<Rightarrow> ('v, 'u, 'e) elysia" where
  "supabase env url_arg anon_key_arg options =
     (let supabase_url = default_param url_arg (SUPABASE_URL env);
          supabase_anon_key = default_param anon_key_arg (SUPABASE_ANON_KEY env)
      in \<lparr>name = ''supabase_auth_guard'', scope_as = ''scoped'',
          resolve = (\<lambda>env_now getUser request.
            supabase_handler supabase_url supabase_anon_key options getUser request)\<rparr>)"

definition anon_supabase ::
  "process_env \<Rightarrow> string option \<Rightarrow> string option \<Rightarrow> 'v client_options option
    \<Rightarrow> ('v, 'u, 'e) elysia" where
  "anon_supabase env url_arg anon_key_arg options =
     (let supabase_url = default_param url_arg (SUPABASE_URL env);
          supabase_anon_key = default_param anon_key_arg (SUPABASE_ANON_KEY env)
      in \<lparr>name = ''supabase_auth_guard'', scope_as = ''scoped'',
          resolve = (\<lambda>env_now getUser request.
            anon_supabase_handler supabase_url supabase_anon_key options getUser request)\<rparr>)"

section \<open>Basic facts\<close>

lemma truthy_simps:
  "truthy None = False"
  "truthy (Some s) = (s \<noteq> [])"
  by (simp_all add: truthy_def)

lemma default_param_simps:
  "default_param None d = d"
  "default_param (Some v) d = Some v"
  by (simp_all add: default_param_def)

lemma resolve_supabase:
  "resolve (supabase env u k opts) en be rq =
     supabase_handler (default_param u (SUPABASE_URL env))
       (default_param k (SUPABASE_ANON_KEY env)) opts be rq"
  by (simp add: supabase_def)

lemma resolve_anon_supabase:
  "resolve (anon_supabase env u k opts) en be rq =
     anon_supabase_handler (default_param u (SUPABASE_URL env))
       (default_param k (SUPABASE_ANON_KEY env)) opts be rq"
  by (simp add: anon_supabase_def)

lemma supabase_handler_reject:
  assumes "\<not> (truthy url \<and> truthy key \<and> truthy (headers_get rq ''Authorization''))"
  shows "supabase_handler url key opts be rq =
     (if \<not> truthy url then ErrorResponse 500 (Some ''SUPABASE_URL is not set'')
      else if \<not> truthy key then ErrorResponse 500 (Some ''SUPABASE_ANON_KEY is not set'')
      else ErrorResponse 401 (Some ''Authorization header is missing''), [])"
  using assms by (auto simp add: supabase_handler_def Let_def)

lemma anon_supabase_handler_reject:
  assumes "\<not> (truthy url \<and> truthy key \<and> truthy (headers_get rq ''Authorization''))"
  shows "anon_supabase_handler url key opts be rq =
     (if \<not> truthy url then ErrorResponse 500 (Some ''SUPABASE_URL is not set'')
      else if \<not> truthy key then ErrorResponse 500 (Some ''SUPABASE_ANON_KEY is not set'')
      else ErrorResponse 401 (Some ''Authorization header is missing''), [])"
  using assms by (auto simp add: anon_supabase_handler_def Let_def)

lemma supabase_handler_accept:
  assumes "truthy url" "truthy key" "truthy (headers_get rq ''Authorization'')"
  shows "supabase_handler url key opts be rq =
     (let a = the (headers_get rq ''Authorization'');
          c = createClient (the url) (the key) (request_options opts a)
      in (if error (be c) \<noteq> None then ErrorResponse 401 None
          else Resolved c (data_user (be c)),
          [CreateClient (the url) (the key) (request_options opts a), GetUser c]))"
  using assms by (simp add: supabase_handler_def Let_def)

lemma anon_supabase_handler_accept:
  assumes "truthy url" "truthy key" "truthy (headers_get rq ''Authorization'')"
  shows "anon_supabase_handler url key opts be rq =
     (let a = the (headers_get rq ''Authorization'');
          c = createClient (the url) (the key) (request_options opts a)
      in (Resolved c (data_user (be c)),
          [CreateClient (the url) (the key) (request_options opts a), GetUser c]))"
  using assms by (simp add: anon_supabase_handler_def Let_def)

lemma supabase_handler_calls:
  "snd (supabase_handler url key opts be rq) =
     (if truthy url \<and> truthy key \<and> truthy (headers_get rq ''Authorization'')
      then [CreateClient (the url) (the key)
              (request_options opts (the (headers_get rq ''Authorization''))),
            GetUser (createClient (the url) (the key)
              (request_options opts (the (headers_get rq ''Authorization''))))]
      else [])"
  by (simp add: supabase_handler_def Let_def)

lemma anon_supabase_handler_calls:
  "snd (anon_supabase_handler url key opts be rq) =
     (if truthy url \<and> truthy key \<and> truthy (headers_get rq ''Authorization'')
      then [CreateClient (the url) (the key)
              (request_options opts (the (headers_get rq ''Authorization''))),
            GetUser (createClient (the url) (the key)
              (request_options opts (the (headers_get rq ''Authorization''))))]
      else [])"
  by (simp add: anon_supabase_handler_def Let_def)

lemma resolve_calls:
  assumes "g = supabase env u k opts \<or> g = anon_supabase env u k opts"
  shows "snd (resolve g en be rq) =
     (if truthy (default_param u (SUPABASE_URL env))
         \<and> truthy (default_param k (SUPABASE_ANON_KEY env))
         \<and> truthy (headers_get rq ''Authorization'')
      then [CreateClient (the (default_param u (SUPABASE_URL env)))
              (the (default_param k (SUPABASE_ANON_KEY env)))
              (request_options opts (the (headers_get rq ''Authorization''))),
            GetUser (createClient (the (default_param u (SUPABASE_URL env)))
              (the (default_param k (SUPABASE_ANON_KEY env)))
              (request_options opts (the (headers_get rq ''Authorization''))))]
      else [])"
  using assms
  by (auto simp only: resolve_supabase resolve_anon_supabase supabase_handler_calls
        anon_supabase_handler_calls)

lemma request_options_other:
  "options_other (request_options opts a) =
     (case opts of None \<Rightarrow> Map.empty | Some op \<Rightarrow> options_other op)"
  by (simp add: request_options_def)

section \<open>The check sequence\<close>

text \<open>
  Claim C1. For every request handled by either guard, the three checks run in the order
  endpoint, access key, Authorization header, and the first check that fails decides the
  answer: a falsy endpoint gives status 500 with message "SUPABASE_URL is not set"
  whatever the key and the header are; with a truthy endpoint, a falsy access key gives
  500 with "SUPABASE_ANON_KEY is not set"; with both truthy, a request whose
  Authorization header is absent gives 401 with "Authorization header is missing". No
  call into the client library is made on any of these paths.
\<close>

theorem C1_check_order:
  assumes "g = supabase env u k opts \<or> g = anon_supabase env u k opts"
    and "url = default_param u (SUPABASE_URL env)"
    and "key = default_param k (SUPABASE_ANON_KEY env)"
    and "\<not> (truthy url \<and> truthy key \<and> truthy (headers_get rq ''Authorization''))"
  shows "resolve g en be rq =
     (if \<not> truthy url then ErrorResponse 500 (Some ''SUPABASE_URL is not set'')
      else if \<not> truthy key then ErrorResponse 500 (Some ''SUPABASE_ANON_KEY is not set'')
      else ErrorResponse 401 (Some ''Authorization header is missing''), [])"
  using assms(1)
proof
  assume "g = supabase env u k opts"
  then show ?thesis
    using assms(2-4) by (simp add: resolve_supabase supabase_handler_reject)
next
  assume "g = anon_supabase env u k opts"
  then show ?thesis
    using assms(2-4) by (simp add: resolve_anon_supabase anon_supabase_handler_reject)
qed

theorem C1_check_order_witness:
  "resolve (supabase \<lparr>SUPABASE_URL = None, SUPABASE_ANON_KEY = None\<rparr> None None
              (None :: nat client_options option) :: (nat, string, string) elysia)
     \<lparr>SUPABASE_URL = None, SUPABASE_ANON_KEY = None\<rparr>
     (\<lambda>c. \<lparr>data_user = Some ''a@b.com'', error = None\<rparr>)
     \<lparr>headers_get = [''Authorization'' \<mapsto> ''Bearer good-token'']\<rparr>
   = (ErrorResponse 500 (Some ''SUPABASE_URL is not set''), [])
   \<and>
   resolve (anon_supabase \<lparr>SUPABASE_URL = Some ''https://x.test'', SUPABASE_ANON_KEY = None\<rparr>
              None None (None :: nat client_options option) :: (nat, string, string) elysia)
     \<lparr>SUPABASE_URL = None, SUPABASE_ANON_KEY = None\<rparr>
     (\<lambda>c. \<lparr>data_user = Some ''a@b.com'', error = None\<rparr>)
     \<lparr>headers_get = Map.empty\<rparr>
   = (ErrorResponse 500 (Some ''SUPABASE_ANON_KEY is not set''), [])
   \<and>
   resolve (supabase \<lparr>SUPABASE_URL = None, SUPABASE_ANON_KEY = None\<rparr>
              (Some ''https://x.test'') (Some ''anon-key'')
              (None :: nat client_options option) :: (nat, string, string) elysia)
     \<lparr>SUPABASE_URL = None, SUPABASE_ANON_KEY = None\<rparr>
     (\<lambda>c. \<lparr>data_user = Some ''a@b.com'', error = None\<rparr>)
     \<lparr>headers_get = Map.empty\<rparr>
   = (ErrorResponse 401 (Some ''Authorization header is missing''), [])"
  using
    C1_check_order [where g = "supabase \<lparr>SUPABASE_URL = None, SUPABASE_ANON_KEY = None\<rparr> None None None"
      and env = "\<lparr>SUPABASE_URL = None, SUPABASE_ANON_KEY = None\<rparr>" and u = None and k = None
      and opts = "None :: nat client_options option" and url = None and key = None
      and rq = "\<lparr>headers_get = [''Authorization'' \<mapsto> ''Bearer good-token'']\<rparr>"
      and en = "\<lparr>SUPABASE_URL = None, SUPABASE_ANON_KEY = None\<rparr>"
      and be = "\<lambda>c. \<lparr>data_user = Some ''a@b.com'', error = None :: string option\<rparr>"]
    C1_check_order [where g = "anon_supabase \<lparr>SUPABASE_URL = Some ''https://x.test'', SUPABASE_ANON_KEY = None\<rparr> None None None"
      and env = "\<lparr>SUPABASE_URL = Some ''https://x.test'', SUPABASE_ANON_KEY = None\<rparr>"
      and u = None and k = None
      and opts = "None :: nat client_options option" and url = "Some ''https://x.test''" and key = None
      and rq = "\<lparr>headers_get = Map.empty\<rparr>"
      and en = "\<lparr>SUPABASE_URL = None, SUPABASE_ANON_KEY = None\<rparr>"
      and be = "\<lambda>c. \<lparr>data_user = Some ''a@b.com'', error = None :: string option\<rparr>"]
    C1_check_order [where g = "supabase \<lparr>SUPABASE_URL = None, SUPABASE_ANON_KEY = None\<rparr> (Some ''https://x.test'') (Some ''anon-key'') None"
      and env = "\<lparr>SUPABASE_URL = None, SUPABASE_ANON_KEY = None\<rparr>"
      and u = "Some ''https://x.test''" and k = "Some ''anon-key''"
      and opts = "None :: nat client_options option"
      and url = "Some ''https://x.test''" and key = "Some ''anon-key''"
      and rq = "\<lparr>headers_get = Map.empty\<rparr>"
      and en = "\<lparr>SUPABASE_URL = None, SUPABASE_ANON_KEY = None\<rparr>"
      and be = "\<lambda>c. \<lparr>data_user = Some ''a@b.com'', error = None :: string option\<rparr>"]
  by (simp add: truthy_simps default_param_simps)

section \<open>Validation of the credential\<close>

text \<open>
  Claim C2. For the strict guard, given a resolved endpoint and access key and a request
  whose Authorization header is present (and passes the presence check): if the backend
  reports an error for the identity lookup on the client built for this request, the
  request is rejected with status 401 and no message, after exactly the two calls
  \<open>createClient\<close> and \<open>getUser\<close>, and no \<open>{ supabase, user }\<close> extension is returned.
\<close>

theorem C2_strict_rejection:
  assumes "truthy (default_param u (SUPABASE_URL env))"
    and "truthy (default_param k (SUPABASE_ANON_KEY env))"
    and "headers_get rq ''Authorization'' = Some a"
    and "a \<noteq> []"
    and "c = createClient (the (default_param u (SUPABASE_URL env)))
               (the (default_param k (SUPABASE_ANON_KEY env))) (request_options opts a)"
    and "error (be c) \<noteq> None"
  shows "resolve (supabase env u k opts) en be rq =
           (ErrorResponse 401 None,
            [CreateClient (the (default_param u (SUPABASE_URL env)))
               (the (default_param k (SUPABASE_ANON_KEY env))) (request_options opts a),
             GetUser c])
         \<and> (\<forall>c' usr. fst (resolve (supabase env u k opts) en be rq) \<noteq> Resolved c' usr)"
proof -
  have "resolve (supabase env u k opts) en be rq =
           (ErrorResponse 401 None,
            [CreateClient (the (default_param u (SUPABASE_URL env)))
               (the (default_param k (SUPABASE_ANON_KEY env))) (request_options opts a),
             GetUser c])"
    using assms
    by (simp add: resolve_supabase supabase_handler_accept truthy_simps Let_def)
  then show ?thesis
    by simp
qed

theorem C2_strict_rejection_witness:
  "resolve (supabase \<lparr>SUPABASE_URL = Some ''https://x.test'', SUPABASE_ANON_KEY = Some ''anon-key''\<rparr>
          None None
          (Some \<lparr>global = Some \<lparr>headers = None, global_other = [''fetch'' \<mapsto> 7]\<rparr>,
                 options_other = [''db'' \<mapsto> (3 :: nat)]\<rparr>) :: (nat, string, string) elysia)
        \<lparr>SUPABASE_URL = None, SUPABASE_ANON_KEY = None\<rparr>
        (\<lambda>c. \<lparr>data_user = None, error = Some ''invalid JWT''\<rparr>)
        \<lparr>headers_get = [''Authorization'' \<mapsto> ''Bearer bad-token'']\<rparr>
   = (ErrorResponse 401 None,
      [CreateClient ''https://x.test'' ''anon-key''
         (request_options
            (Some \<lparr>global = Some \<lparr>headers = None, global_other = [''fetch'' \<mapsto> 7]\<rparr>,
                   options_other = [''db'' \<mapsto> 3]\<rparr>) ''Bearer bad-token''),
       GetUser (createClient ''https://x.test'' ''anon-key''
         (request_options
            (Some \<lparr>global = Some \<lparr>headers = None, global_other = [''fetch'' \<mapsto> 7]\<rparr>,
                   options_other = [''db'' \<mapsto> 3]\<rparr>) ''Bearer bad-token''))])"
proof -
  let ?env = "\<lparr>SUPABASE_URL = Some ''https://x.test'', SUPABASE_ANON_KEY = Some ''anon-key''\<rparr>"
  let ?en = "\<lparr>SUPABASE_URL = None, SUPABASE_ANON_KEY = None\<rparr>"
  let ?opts = "Some \<lparr>global = Some \<lparr>headers = None, global_other = [''fetch'' \<mapsto> 7]\<rparr>,
                     options_other = [''db'' \<mapsto> (3 :: nat)]\<rparr>"
  let ?be = "\<lambda>c :: nat client. \<lparr>data_user = None :: string option, error = Some ''invalid JWT''\<rparr>"
  let ?rq = "\<lparr>headers_get = [''Authorization'' \<mapsto> ''Bearer bad-token'']\<rparr>"
  have h1: "truthy (default_param None (SUPABASE_URL ?env))"
    by (simp add: truthy_simps default_param_simps)
  have h2: "truthy (default_param None (SUPABASE_ANON_KEY ?env))"
    by (simp add: truthy_simps default_param_simps)
  have h3: "headers_get ?rq ''Authorization'' = Some ''Bearer bad-token''"
    by simp
  have h4: "''Bearer bad-token'' \<noteq> []"
    by simp
  have h6: "error (?be (createClient (the (default_param None (SUPABASE_URL ?env)))
               (the (default_param None (SUPABASE_ANON_KEY ?env)))
               (request_options ?opts ''Bearer bad-token''))) \<noteq> None"
    by simp
  from C2_strict_rejection [where opts = ?opts and be = ?be and en = ?en,
      OF h1 h2 h3 h4 refl h6]
  show ?thesis
    by (simp add: default_param_simps)
qed

text \<open>
  Claim C3, amended. For the permissive guard, given a resolved endpoint and access key
  and an Authorization header that is present and not empty, the handler always
  succeeds: it returns the client built for the request together with whatever
  \<open>resp.data.user\<close> the backend answered (possibly null), whatever \<open>resp.error\<close> is.
\<close>

theorem C3_permissive_pass_through:
  assumes "truthy (default_param u (SUPABASE_URL env))"
    and "truthy (default_param k (SUPABASE_ANON_KEY env))"
    and "headers_get rq ''Authorization'' = Some a"
    and "a \<noteq> []"
    and "c = createClient (the (default_param u (SUPABASE_URL env)))
               (the (default_param k (SUPABASE_ANON_KEY env))) (request_options opts a)"
  shows "resolve (anon_supabase env u k opts) en be rq =
           (Resolved c (data_user (be c)),
            [CreateClient (the (default_param u (SUPABASE_URL env)))
               (the (default_param k (SUPABASE_ANON_KEY env))) (request_options opts a),
             GetUser c])"
  using assms
  by (simp add: resolve_anon_supabase anon_supabase_handler_accept truthy_simps Let_def)

text \<open>An invalid token under the permissive guard: the backend reports an error and no user.\<close>

theorem C3_permissive_pass_through_witness:
  "resolve (anon_supabase \<lparr>SUPABASE_URL = None, SUPABASE_ANON_KEY = None\<rparr>
          (Some ''https://x.test'') (Some ''anon-key'')
          (None :: nat client_options option) :: (nat, string, string) elysia)
        \<lparr>SUPABASE_URL = None, SUPABASE_ANON_KEY = None\<rparr>
        (\<lambda>c. \<lparr>data_user = None, error = Some ''invalid JWT''\<rparr>)
        \<lparr>headers_get = [''Authorization'' \<mapsto> ''Bearer bad-token'']\<rparr>
   = (Resolved (createClient ''https://x.test'' ''anon-key''
                  (request_options None ''Bearer bad-token'')) None,
      [CreateClient ''https://x.test'' ''anon-key'' (request_options None ''Bearer bad-token''),
       GetUser (createClient ''https://x.test'' ''anon-key''
                  (request_options None ''Bearer bad-token''))])"
proof -
  let ?env = "\<lparr>SUPABASE_URL = None, SUPABASE_ANON_KEY = None\<rparr>"
  let ?rq = "\<lparr>headers_get = [''Authorization'' \<mapsto> ''Bearer bad-token'']\<rparr>"
  have h1: "truthy (default_param (Some ''https://x.test'') (SUPABASE_URL ?env))"
    by (simp add: truthy_simps default_param_simps)
  have h2: "truthy (default_param (Some ''anon-key'') (SUPABASE_ANON_KEY ?env))"
    by (simp add: truthy_simps default_param_simps)
  have h3: "headers_get ?rq ''Authorization'' = Some ''Bearer bad-token''"
    by simp
  have h4: "''Bearer bad-token'' \<noteq> []"
    by simp
  from C3_permissive_pass_through [where opts = "None :: nat client_options option"
      and be = "\<lambda>c. \<lparr>data_user = None :: string option, error = Some ''invalid JWT''\<rparr>"
      and en = ?env, OF h1 h2 h3 h4 refl]
  show ?thesis
    by (simp add: default_param_simps)
qed

text \<open>
  Claim C3 as stated asks only for a present header. A header that is present with the
  empty string as its value does not pass \<open>!Authorization\<close>: the permissive guard
  rejects the request although endpoint and key are resolved.
\<close>

theorem C3_empty_header_counterexample:
  "truthy (Some ''https://x.test'') \<and> truthy (Some ''anon-key'')
   \<and> headers_get \<lparr>headers_get = [''Authorization'' \<mapsto> []]\<rparr> ''Authorization'' = Some []
   \<and> resolve (anon_supabase \<lparr>SUPABASE_URL = None, SUPABASE_ANON_KEY = None\<rparr>
          (Some ''https://x.test'') (Some ''anon-key'')
          (None :: nat client_options option) :: (nat, string, string) elysia)
        \<lparr>SUPABASE_URL = None, SUPABASE_ANON_KEY = None\<rparr>
        (\<lambda>c. \<lparr>data_user = None, error = None\<rparr>)
        \<lparr>headers_get = [''Authorization'' \<mapsto> []]\<rparr>
     = (ErrorResponse 401 (Some ''Authorization header is missing''), [])"
  by (simp add: resolve_anon_supabase anon_supabase_handler_reject truthy_simps
        default_param_simps)

section \<open>Presence of the header\<close>

text \<open>
  Claim C4, amended. For both guards, a request without an Authorization header is
  always rejected, with no call to the client library: with status 401 and message
  "Authorization header is missing" whenever the endpoint and the access key are
  resolved, with 500 and "SUPABASE_URL is not set" when the endpoint is unresolved, and
  with 500 and "SUPABASE_ANON_KEY is not set" when the endpoint is resolved and the key
  is not. Such a request never succeeds: the permissive guard does not waive the
  presence of the header.
\<close>

theorem C4_header_required:
  assumes "g = supabase env u k opts \<or> g = anon_supabase env u k opts"
    and "headers_get rq ''Authorization'' = None"
  shows "resolve g en be rq =
           (if \<not> truthy (default_param u (SUPABASE_URL env))
              then ErrorResponse 500 (Some ''SUPABASE_URL is not set'')
            else if \<not> truthy (default_param k (SUPABASE_ANON_KEY env))
              then ErrorResponse 500 (Some ''SUPABASE_ANON_KEY is not set'')
            else ErrorResponse 401 (Some ''Authorization header is missing''), [])
         \<and> (truthy (default_param u (SUPABASE_URL env))
            \<and> truthy (default_param k (SUPABASE_ANON_KEY env))
          \<longrightarrow> resolve g en be rq =
                (ErrorResponse 401 (Some ''Authorization header is missing''), []))
         \<and> (\<forall>c usr. fst (resolve g en be rq) \<noteq> Resolved c usr)
         \<and> snd (resolve g en be rq) = []"
  using assms(1)
proof
  assume "g = supabase env u k opts"
  then show ?thesis
    using assms(2)
    by (simp add: resolve_supabase supabase_handler_reject truthy_simps)
next
  assume "g = anon_supabase env u k opts"
  then show ?thesis
    using assms(2)
    by (simp add: resolve_anon_supabase anon_supabase_handler_reject truthy_simps)
qed

theorem C4_header_required_witness:
  "resolve (anon_supabase \<lparr>SUPABASE_URL = Some ''https://x.test'', SUPABASE_ANON_KEY = Some ''anon-key''\<rparr>
          None None (None :: nat client_options option) :: (nat, string, string) elysia)
        \<lparr>SUPABASE_URL = None, SUPABASE_ANON_KEY = None\<rparr>
        (\<lambda>c. \<lparr>data_user = Some ''a@b.com'', error = None\<rparr>)
        \<lparr>headers_get = Map.empty\<rparr>
   = (ErrorResponse 401 (Some ''Authorization header is missing''), [])"
  using C4_header_required [where g = "anon_supabase \<lparr>SUPABASE_URL = Some ''https://x.test'', SUPABASE_ANON_KEY = Some ''anon-key''\<rparr> None None None"
      and env = "\<lparr>SUPABASE_URL = Some ''https://x.test'', SUPABASE_ANON_KEY = Some ''anon-key''\<rparr>"
      and u = None and k = None and opts = "None :: nat client_options option"
      and rq = "\<lparr>headers_get = Map.empty\<rparr>"
      and en = "\<lparr>SUPABASE_URL = None, SUPABASE_ANON_KEY = None\<rparr>"
      and be = "\<lambda>c. \<lparr>data_user = Some ''a@b.com'', error = None :: string option\<rparr>"]
  by (simp add: truthy_simps default_param_simps)

text \<open>
  Claim C4 as stated covers every request without the header. On a guard whose endpoint
  is unresolved the endpoint check answers first, and the request is rejected with 500.
\<close>

theorem C4_unset_endpoint_counterexample:
  "headers_get \<lparr>headers_get = Map.empty\<rparr> ''Authorization'' = None
   \<and> resolve (supabase \<lparr>SUPABASE_URL = None, SUPABASE_ANON_KEY = Some ''anon-key''\<rparr>
          None None (None :: nat client_options option) :: (nat, string, string) elysia)
        \<lparr>SUPABASE_URL = None, SUPABASE_ANON_KEY = Some ''anon-key''\<rparr>
        (\<lambda>c. \<lparr>data_user = None, error = None\<rparr>)
        \<lparr>headers_get = Map.empty\<rparr>
     = (ErrorResponse 500 (Some ''SUPABASE_URL is not set''), [])
   \<and> (500 :: nat) \<noteq> 401"
  by (simp add: resolve_supabase supabase_handler_reject truthy_simps default_param_simps)

text \<open>
  Claim C9, amended. For both guards, a request whose Authorization header is the empty
  string is answered exactly as the same request with the header removed, with no call
  to \<open>createClient\<close>: with status 401 and message "Authorization header is missing"
  whenever the endpoint and the access key are resolved, with 500 and "SUPABASE_URL is
  not set" when the endpoint is unresolved, and with 500 and "SUPABASE_ANON_KEY is not
  set" when the endpoint is resolved and the key is not. It never succeeds.
\<close>

theorem C9_empty_header_as_missing:
  assumes "g = supabase env u k opts \<or> g = anon_supabase env u k opts"
    and "headers_get rq ''Authorization'' = Some []"
  shows "resolve g en be rq =
           resolve g en be (rq\<lparr>headers_get := (headers_get rq)(''Authorization'' := None)\<rparr>)
       \<and> resolve g en be rq =
           (if \<not> truthy (default_param u (SUPABASE_URL env))
              then ErrorResponse 500 (Some ''SUPABASE_URL is not set'')
            else if \<not> truthy (default_param k (SUPABASE_ANON_KEY env))
              then ErrorResponse 500 (Some ''SUPABASE_ANON_KEY is not set'')
            else ErrorResponse 401 (Some ''Authorization header is missing''), [])
       \<and> (truthy (default_param u (SUPABASE_URL env))
            \<and> truthy (default_param k (SUPABASE_ANON_KEY env))
          \<longrightarrow> resolve g en be rq =
                (ErrorResponse 401 (Some ''Authorization header is missing''), []))
       \<and> (\<forall>c usr. fst (resolve g en be rq) \<noteq> Resolved c usr)
       \<and> snd (resolve g en be rq) = []"
  using assms(1)
proof
  assume "g = supabase env u k opts"
  then show ?thesis
    using assms(2)
    by (simp add: resolve_supabase supabase_handler_reject truthy_simps)
next
  assume "g = anon_supabase env u k opts"
  then show ?thesis
    using assms(2)
    by (simp add: resolve_anon_supabase anon_supabase_handler_reject truthy_simps)
qed

theorem C9_empty_header_as_missing_witness:
  "resolve (supabase \<lparr>SUPABASE_URL = None, SUPABASE_ANON_KEY = None\<rparr>
          (Some ''https://x.test'') (Some ''anon-key'')
          (None :: nat client_options option) :: (nat, string, string) elysia)
        \<lparr>SUPABASE_URL = None, SUPABASE_ANON_KEY = None\<rparr>
        (\<lambda>c. \<lparr>data_user = Some ''a@b.com'', error = None\<rparr>)
        \<lparr>headers_get = [''Authorization'' \<mapsto> []]\<rparr>
   = (ErrorResponse 401 (Some ''Authorization header is missing''), [])"
proof -
  let ?env = "\<lparr>SUPABASE_URL = None, SUPABASE_ANON_KEY = None\<rparr>"
  let ?rq = "\<lparr>headers_get = [''Authorization'' \<mapsto> []]\<rparr>"
  have h: "headers_get ?rq ''Authorization'' = Some []"
    by simp
  have "truthy (default_param (Some ''https://x.test'') (SUPABASE_URL ?env))
          \<and> truthy (default_param (Some ''anon-key'') (SUPABASE_ANON_KEY ?env))
        \<longrightarrow> resolve (supabase ?env (Some ''https://x.test'') (Some ''anon-key'')
                (None :: nat client_options option) :: (nat, string, string) elysia) ?env
              (\<lambda>c. \<lparr>data_user = Some ''a@b.com'', error = None\<rparr>) ?rq
            = (ErrorResponse 401 (Some ''Authorization header is missing''), [])"
    using C9_empty_header_as_missing [OF disjI1 [OF refl] h] by blast
  then show ?thesis
    by (simp add: truthy_simps default_param_simps)
qed

text \<open>
  Claim C9 as stated gives 401 for every such request. On a guard whose access key is
  unresolved the key check answers first, with 500.
\<close>

theorem C9_unset_key_counterexample:
  "headers_get \<lparr>headers_get = [''Authorization'' \<mapsto> []]\<rparr> ''Authorization'' = Some []
   \<and> resolve (anon_supabase \<lparr>SUPABASE_URL = Some ''https://x.test'', SUPABASE_ANON_KEY = None\<rparr>
          None None (None :: nat client_options option) :: (nat, string, string) elysia)
        \<lparr>SUPABASE_URL = Some ''https://x.test'', SUPABASE_ANON_KEY = None\<rparr>
        (\<lambda>c. \<lparr>data_user = None, error = None\<rparr>)
        \<lparr>headers_get = [''Authorization'' \<mapsto> []]\<rparr>
     = (ErrorResponse 500 (Some ''SUPABASE_ANON_KEY is not set''), [])
   \<and> (500 :: nat) \<noteq> 401"
  by (simp add: resolve_anon_supabase anon_supabase_handler_reject truthy_simps
        default_param_simps)

section \<open>Options passed to the client factory\<close>

text \<open>
  Claim C5 says that header keys other than Authorization given in
  \<open>options.global.headers\<close> reach the client factory. The handler writes
  \<open>headers: { Authorization }\<close> after the spread of \<open>options?.global\<close>, which replaces the
  whole \<open>headers\<close> object: for options carrying an \<open>X-Client-Info\<close> header, the options
  passed to \<open>createClient\<close> hold the Authorization header only.
\<close>

theorem C5_other_headers_dropped:
  "snd (resolve (supabase \<lparr>SUPABASE_URL = None, SUPABASE_ANON_KEY = None\<rparr>
          (Some ''https://x.test'') (Some ''anon-key'')
          (Some \<lparr>global = Some \<lparr>headers = Some [''X-Client-Info'' \<mapsto> ''my-app''],
                                 global_other = Map.empty\<rparr>,
                 options_other = (Map.empty :: string \<rightharpoonup> nat)\<rparr>) :: (nat, string, string) elysia)
        \<lparr>SUPABASE_URL = None, SUPABASE_ANON_KEY = None\<rparr>
        (\<lambda>c. \<lparr>data_user = Some ''a@b.com'', error = None\<rparr>)
        \<lparr>headers_get = [''Authorization'' \<mapsto> ''Bearer good-token'']\<rparr>)
   = [CreateClient ''https://x.test'' ''anon-key''
        \<lparr>global = Some \<lparr>headers = Some [''Authorization'' \<mapsto> ''Bearer good-token''],
                         global_other = Map.empty\<rparr>,
         options_other = Map.empty\<rparr>,
      GetUser (createClient ''https://x.test'' ''anon-key''
        \<lparr>global = Some \<lparr>headers = Some [''Authorization'' \<mapsto> ''Bearer good-token''],
                         global_other = Map.empty\<rparr>,
         options_other = Map.empty\<rparr>)]
   \<and> [''Authorization'' \<mapsto> ''Bearer good-token''] ''X-Client-Info'' = None"
  by (simp add: resolve_supabase supabase_handler_calls truthy_simps default_param_simps
        request_options_def optional_global_def)

text \<open>
  Claim C6. For every request that passes the header check, on either guard, the options
  passed to \<open>createClient\<close> carry the request's Authorization value under
  \<open>global.headers.Authorization\<close>, whatever \<open>options.global.headers\<close> held at
  construction; every key of the caller's \<open>options\<close> other than \<open>global\<close>, and every key
  of the caller's \<open>options.global\<close> other than \<open>headers\<close>, is passed on unchanged, and no
  other key is added (none at all when \<open>options\<close>, or its \<open>global\<close>, is undefined).
\<close>

theorem C6_authorization_override:
  assumes "g = supabase env u k opts \<or> g = anon_supabase env u k opts"
    and "truthy (default_param u (SUPABASE_URL env))"
    and "truthy (default_param k (SUPABASE_ANON_KEY env))"
    and "headers_get rq ''Authorization'' = Some a"
    and "a \<noteq> []"
  shows "\<exists>passed gl hs.
           snd (resolve g en be rq) =
             [CreateClient (the (default_param u (SUPABASE_URL env)))
                (the (default_param k (SUPABASE_ANON_KEY env))) passed,
              GetUser (createClient (the (default_param u (SUPABASE_URL env)))
                (the (default_param k (SUPABASE_ANON_KEY env))) passed)]
           \<and> global passed = Some gl
           \<and> headers gl = Some hs
           \<and> hs ''Authorization'' = Some a
           \<and> global_other gl =
               (case opts of None \<Rightarrow> Map.empty
                | Some op \<Rightarrow> (case global op of None \<Rightarrow> Map.empty
                              | Some g0 \<Rightarrow> global_other g0))
           \<and> options_other passed = (case opts of None \<Rightarrow> Map.empty
                                      | Some op \<Rightarrow> options_other op)"
proof -
  let ?go = "case opts of None \<Rightarrow> Map.empty
             | Some op \<Rightarrow> (case global op of None \<Rightarrow> Map.empty
                           | Some g0 \<Rightarrow> global_other g0)"
  have calls: "snd (resolve g en be rq) =
          [CreateClient (the (default_param u (SUPABASE_URL env)))
             (the (default_param k (SUPABASE_ANON_KEY env))) (request_options opts a),
           GetUser (createClient (the (default_param u (SUPABASE_URL env)))
             (the (default_param k (SUPABASE_ANON_KEY env))) (request_options opts a))]"
    using assms(2-5) by (simp add: resolve_calls [OF assms(1)] truthy_simps)
  have gl: "global (request_options opts a) =
      Some \<lparr>headers = Some [''Authorization'' \<mapsto> a], global_other = ?go\<rparr>"
    by (simp add: request_options_def optional_global_def split: option.splits)
  from calls gl show ?thesis
    by (intro exI [of _ "request_options opts a"]
          exI [of _ "\<lparr>headers = Some [''Authorization'' \<mapsto> a], global_other = ?go\<rparr>"]
          exI [of _ "[''Authorization'' \<mapsto> a]"])
       (simp add: request_options_other)
qed

text \<open>
  Options that carry an Authorization header of their own, a \<open>fetch\<close> entry under
  \<open>global\<close> and a \<open>db\<close> entry at the top level; and options whose \<open>global\<close> has a
  \<open>fetch\<close> entry and no \<open>headers\<close>.
\<close>

theorem C6_authorization_override_witness:
  "(\<exists>passed gl hs.
     snd (resolve (anon_supabase \<lparr>SUPABASE_URL = None, SUPABASE_ANON_KEY = None\<rparr>
            (Some ''https://x.test'') (Some ''anon-key'')
            (Some \<lparr>global = Some \<lparr>headers = Some [''Authorization'' \<mapsto> ''Bearer fixed''],
                                   global_other = [''fetch'' \<mapsto> 7]\<rparr>,
                   options_other = [''db'' \<mapsto> (3 :: nat)]\<rparr>) :: (nat, string, string) elysia)
          \<lparr>SUPABASE_URL = None, SUPABASE_ANON_KEY = None\<rparr>
          (\<lambda>c. \<lparr>data_user = Some ''a@b.com'', error = None\<rparr>)
          \<lparr>headers_get = [''Authorization'' \<mapsto> ''Bearer good-token'']\<rparr>)
       = [CreateClient ''https://x.test'' ''anon-key'' passed,
          GetUser (createClient ''https://x.test'' ''anon-key'' passed)]
     \<and> global passed = Some gl \<and> headers gl = Some hs
     \<and> hs ''Authorization'' = Some ''Bearer good-token''
     \<and> global_other gl ''fetch'' = Some 7
     \<and> options_other passed ''db'' = Some 3)
   \<and>
   (\<exists>passed gl hs.
     snd (resolve (supabase \<lparr>SUPABASE_URL = None, SUPABASE_ANON_KEY = None\<rparr>
            (Some ''https://x.test'') (Some ''anon-key'')
            (Some \<lparr>global = Some \<lparr>headers = None, global_other = [''fetch'' \<mapsto> 7]\<rparr>,
                   options_other = (Map.empty :: string \<rightharpoonup> nat)\<rparr>) :: (nat, string, string) elysia)
          \<lparr>SUPABASE_URL = None, SUPABASE_ANON_KEY = None\<rparr>
          (\<lambda>c. \<lparr>data_user = Some ''a@b.com'', error = None\<rparr>)
          \<lparr>headers_get = [''Authorization'' \<mapsto> ''Bearer good-token'']\<rparr>)
       = [CreateClient ''https://x.test'' ''anon-key'' passed,
          GetUser (createClient ''https://x.test'' ''anon-key'' passed)]
     \<and> global passed = Some gl \<and> headers gl = Some hs
     \<and> hs ''Authorization'' = Some ''Bearer good-token''
     \<and> global_other gl ''fetch'' = Some 7)"
proof -
  let ?env = "\<lparr>SUPABASE_URL = None, SUPABASE_ANON_KEY = None\<rparr>"
  let ?opts = "Some \<lparr>global = Some \<lparr>headers = Some [''Authorization'' \<mapsto> ''Bearer fixed''],
                                    global_other = [''fetch'' \<mapsto> 7]\<rparr>,
                     options_other = [''db'' \<mapsto> (3 :: nat)]\<rparr>"
  let ?opts' = "Some \<lparr>global = Some \<lparr>headers = None, global_other = [''fetch'' \<mapsto> 7]\<rparr>,
                      options_other = (Map.empty :: string \<rightharpoonup> nat)\<rparr>"
  let ?rq = "\<lparr>headers_get = [''Authorization'' \<mapsto> ''Bearer good-token'']\<rparr>"
  have h1: "truthy (default_param (Some ''https://x.test'') (SUPABASE_URL ?env))"
    by (simp add: truthy_simps default_param_simps)
  have h2: "truthy (default_param (Some ''anon-key'') (SUPABASE_ANON_KEY ?env))"
    by (simp add: truthy_simps default_param_simps)
  have h3: "headers_get ?rq ''Authorization'' = Some ''Bearer good-token''"
    by simp
  have h4: "''Bearer good-token'' \<noteq> []"
    by simp
  have first: "\<exists>passed gl hs.
     snd (resolve (anon_supabase ?env (Some ''https://x.test'') (Some ''anon-key'') ?opts
            :: (nat, string, string) elysia) ?env
          (\<lambda>c. \<lparr>data_user = Some ''a@b.com'', error = None\<rparr>) ?rq)
       = [CreateClient ''https://x.test'' ''anon-key'' passed,
          GetUser (createClient ''https://x.test'' ''anon-key'' passed)]
     \<and> global passed = Some gl \<and> headers gl = Some hs
     \<and> hs ''Authorization'' = Some ''Bearer good-token''
     \<and> global_other gl ''fetch'' = Some 7
     \<and> options_other passed ''db'' = Some 3"
    using C6_authorization_override [where opts = ?opts and en = ?env
      and be = "\<lambda>c. \<lparr>data_user = Some ''a@b.com'', error = None :: string option\<rparr>",
      OF disjI2 [OF refl] h1 h2 h3 h4]
    by (auto simp add: default_param_simps)
  have second: "\<exists>passed gl hs.
     snd (resolve (supabase ?env (Some ''https://x.test'') (Some ''anon-key'') ?opts'
            :: (nat, string, string) elysia) ?env
          (\<lambda>c. \<lparr>data_user = Some ''a@b.com'', error = None\<rparr>) ?rq)
       = [CreateClient ''https://x.test'' ''anon-key'' passed,
          GetUser (createClient ''https://x.test'' ''anon-key'' passed)]
     \<and> global passed = Some gl \<and> headers gl = Some hs
     \<and> hs ''Authorization'' = Some ''Bearer good-token''
     \<and> global_other gl ''fetch'' = Some 7"
    using C6_authorization_override [where opts = ?opts' and en = ?env
      and be = "\<lambda>c. \<lparr>data_user = Some ''a@b.com'', error = None :: string option\<rparr>",
      OF disjI1 [OF refl] h1 h2 h3 h4]
    by (auto simp add: default_param_simps)
  from first second show ?thesis
    by (rule conjI)
qed

section \<open>Configuration and the environment\<close>

text \<open>
  Claim C7. For both constructors \<open>mk\<close>: a supplied endpoint (access key) makes the
  value of \<open>SUPABASE_URL\<close> (\<open>SUPABASE_ANON_KEY\<close>) irrelevant, and the client is built from
  the supplied values; an omitted endpoint (access key) behaves as if the value of the
  environment variable had been supplied; with neither, the constructor still returns
  the plugin, and every request is answered with status 500 by the configuration check.
\<close>

theorem C7_config_precedence:
  assumes "mk = supabase \<or> mk = anon_supabase"
  shows "resolve (mk env (Some url) k opts) =
           resolve (mk (env\<lparr>SUPABASE_URL := x\<rparr>) (Some url) k opts)
       \<and> resolve (mk env u (Some key) opts) =
           resolve (mk (env\<lparr>SUPABASE_ANON_KEY := y\<rparr>) u (Some key) opts)
       \<and> (url \<noteq> [] \<and> key \<noteq> [] \<and> truthy (headers_get rq ''Authorization'') \<longrightarrow>
            (\<exists>passed. snd (resolve (mk env (Some url) (Some key) opts) en be rq) =
               [CreateClient url key passed, GetUser (createClient url key passed)]))
       \<and> resolve (mk env None k opts) = resolve (mk env (SUPABASE_URL env) k opts)
       \<and> resolve (mk env u None opts) = resolve (mk env u (SUPABASE_ANON_KEY env) opts)
       \<and> name (mk env None None opts) = ''supabase_auth_guard''
       \<and> (SUPABASE_URL env = None \<longrightarrow>
            resolve (mk env None k opts) en be rq =
              (ErrorResponse 500 (Some ''SUPABASE_URL is not set''), []))
       \<and> (SUPABASE_ANON_KEY env = None \<longrightarrow>
            resolve (mk env u None opts) en be rq =
              (ErrorResponse 500
                 (Some (if truthy (default_param u (SUPABASE_URL env))
                        then ''SUPABASE_ANON_KEY is not set''
                        else ''SUPABASE_URL is not set'')), []))"
  using assms
proof
  assume mk: "mk = supabase"
  have a: "resolve (supabase env (Some url) k opts) =
             resolve (supabase (env\<lparr>SUPABASE_URL := x\<rparr>) (Some url) k opts)"
    by (intro ext) (simp add: resolve_supabase default_param_simps)
  have b: "resolve (supabase env u (Some key) opts) =
             resolve (supabase (env\<lparr>SUPABASE_ANON_KEY := y\<rparr>) u (Some key) opts)"
    by (intro ext) (simp add: resolve_supabase default_param_simps)
  have c: "url \<noteq> [] \<and> key \<noteq> [] \<and> truthy (headers_get rq ''Authorization'') \<longrightarrow>
            (\<exists>passed. snd (resolve (supabase env (Some url) (Some key) opts) en be rq) =
               [CreateClient url key passed, GetUser (createClient url key passed)])"
    by (simp add: resolve_supabase supabase_handler_calls default_param_simps truthy_simps)
  have d: "resolve (supabase env None k opts) = resolve (supabase env (SUPABASE_URL env) k opts)"
    by (intro ext) (simp add: resolve_supabase default_param_def split: option.splits)
  have e: "resolve (supabase env u None opts) =
             resolve (supabase env u (SUPABASE_ANON_KEY env) opts)"
    by (intro ext) (simp add: resolve_supabase default_param_def split: option.splits)
  have f: "name (supabase env None None opts) = ''supabase_auth_guard''"
    by (simp add: supabase_def)
  have g: "SUPABASE_URL env = None \<longrightarrow>
            resolve (supabase env None k opts) en be rq =
              (ErrorResponse 500 (Some ''SUPABASE_URL is not set''), [])"
    by (simp add: resolve_supabase supabase_handler_reject default_param_simps truthy_simps)
  have h: "SUPABASE_ANON_KEY env = None \<longrightarrow>
            resolve (supabase env u None opts) en be rq =
              (ErrorResponse 500
                 (Some (if truthy (default_param u (SUPABASE_URL env))
                        then ''SUPABASE_ANON_KEY is not set''
                        else ''SUPABASE_URL is not set'')), [])"
    by (simp add: resolve_supabase supabase_handler_reject default_param_simps truthy_simps)
  from a b c d e f g h show ?thesis
    unfolding mk by blast
next
  assume mk: "mk = anon_supabase"
  have a: "resolve (anon_supabase env (Some url) k opts) =
             resolve (anon_supabase (env\<lparr>SUPABASE_URL := x\<rparr>) (Some url) k opts)"
    by (intro ext) (simp add: resolve_anon_supabase default_param_simps)
  have b: "resolve (anon_supabase env u (Some key) opts) =
             resolve (anon_supabase (env\<lparr>SUPABASE_ANON_KEY := y\<rparr>) u (Some key) opts)"
    by (intro ext) (simp add: resolve_anon_supabase default_param_simps)
  have c: "url \<noteq> [] \<and> key \<noteq> [] \<and> truthy (headers_get rq ''Authorization'') \<longrightarrow>
            (\<exists>passed. snd (resolve (anon_supabase env (Some url) (Some key) opts) en be rq) =
               [CreateClient url key passed, GetUser (createClient url key passed)])"
    by (simp add: resolve_anon_supabase anon_supabase_handler_calls default_param_simps
          truthy_simps)
  have d: "resolve (anon_supabase env None k opts) =
             resolve (anon_supabase env (SUPABASE_URL env) k opts)"
    by (intro ext) (simp add: resolve_anon_supabase default_param_def split: option.splits)
  have e: "resolve (anon_supabase env u None opts) =
             resolve (anon_supabase env u (SUPABASE_ANON_KEY env) opts)"
    by (intro ext) (simp add: resolve_anon_supabase default_param_def split: option.splits)
  have f: "name (anon_supabase env None None opts) = ''supabase_auth_guard''"
    by (simp add: anon_supabase_def)
  have g: "SUPABASE_URL env = None \<longrightarrow>
            resolve (anon_supabase env None k opts) en be rq =
              (ErrorResponse 500 (Some ''SUPABASE_URL is not set''), [])"
    by (simp add: resolve_anon_supabase anon_supabase_handler_reject default_param_simps
          truthy_simps)
  have h: "SUPABASE_ANON_KEY env = None \<longrightarrow>
            resolve (anon_supabase env u None opts) en be rq =
              (ErrorResponse 500
                 (Some (if truthy (default_param u (SUPABASE_URL env))
                        then ''SUPABASE_ANON_KEY is not set''
                        else ''SUPABASE_URL is not set'')), [])"
    by (simp add: resolve_anon_supabase anon_supabase_handler_reject default_param_simps
          truthy_simps)
  from a b c d e f g h show ?thesis
    unfolding mk by blast
qed

theorem C7_config_precedence_witness:
  "(\<exists>passed.
      snd (resolve (supabase \<lparr>SUPABASE_URL = None, SUPABASE_ANON_KEY = None\<rparr>
             (Some ''https://x.test'') (Some ''anon-key'')
             (None :: nat client_options option) :: (nat, string, string) elysia)
           \<lparr>SUPABASE_URL = None, SUPABASE_ANON_KEY = None\<rparr>
           (\<lambda>c. \<lparr>data_user = Some ''a@b.com'', error = None\<rparr>)
           \<lparr>headers_get = [''Authorization'' \<mapsto> ''Bearer good-token'']\<rparr>)
      = [CreateClient ''https://x.test'' ''anon-key'' passed,
         GetUser (createClient ''https://x.test'' ''anon-key'' passed)])
   \<and> resolve (supabase \<lparr>SUPABASE_URL = None, SUPABASE_ANON_KEY = None\<rparr> None None
          (None :: nat client_options option) :: (nat, string, string) elysia)
        \<lparr>SUPABASE_URL = None, SUPABASE_ANON_KEY = None\<rparr>
        (\<lambda>c. \<lparr>data_user = Some ''a@b.com'', error = None\<rparr>)
        \<lparr>headers_get = [''Authorization'' \<mapsto> ''Bearer good-token'']\<rparr>
      = (ErrorResponse 500 (Some ''SUPABASE_URL is not set''), [])
   \<and> resolve (supabase \<lparr>SUPABASE_URL = None, SUPABASE_ANON_KEY = None\<rparr>
          (Some ''https://x.test'') None
          (None :: nat client_options option) :: (nat, string, string) elysia)
        \<lparr>SUPABASE_URL = None, SUPABASE_ANON_KEY = None\<rparr>
        (\<lambda>c. \<lparr>data_user = Some ''a@b.com'', error = None\<rparr>)
        \<lparr>headers_get = [''Authorization'' \<mapsto> ''Bearer good-token'']\<rparr>
      = (ErrorResponse 500 (Some ''SUPABASE_ANON_KEY is not set''), [])"
  using C7_config_precedence [where mk = supabase
      and env = "\<lparr>SUPABASE_URL = None, SUPABASE_ANON_KEY = None\<rparr>"
      and url = "''https://x.test''" and key = "''anon-key''"
      and u = "Some ''https://x.test''" and k = None
      and opts = "None :: nat client_options option"
      and x = None and y = None
      and rq = "\<lparr>headers_get = [''Authorization'' \<mapsto> ''Bearer good-token'']\<rparr>"
      and en = "\<lparr>SUPABASE_URL = None, SUPABASE_ANON_KEY = None\<rparr>"
      and be = "\<lambda>c. \<lparr>data_user = Some ''a@b.com'', error = None :: string option\<rparr>"]
  by (simp add: truthy_simps default_param_simps)



text \<open>
  Claim C10, amended. For both guards, an endpoint or access key supplied as the empty
  string is not replaced by the environment variable, and every request is answered
  with status 500: for an empty endpoint with message "SUPABASE_URL is not set"; for an
  empty access key with "SUPABASE_ANON_KEY is not set" when the endpoint is resolved,
  and with the endpoint's message when it is not.
\<close>

theorem C10_empty_string_config:
  assumes "g = supabase env u k opts \<or> g = anon_supabase env u k opts"
  shows "(u = Some [] \<longrightarrow>
            resolve g en be rq = (ErrorResponse 500 (Some ''SUPABASE_URL is not set''), []))
       \<and> (k = Some [] \<longrightarrow>
            resolve g en be rq =
              (ErrorResponse 500
                 (Some (if truthy (default_param u (SUPABASE_URL env))
                        then ''SUPABASE_ANON_KEY is not set''
                        else ''SUPABASE_URL is not set'')), []))"
  using assms
proof
  assume "g = supabase env u k opts"
  then show ?thesis
    by (simp add: resolve_supabase supabase_handler_reject truthy_simps default_param_simps)
next
  assume "g = anon_supabase env u k opts"
  then show ?thesis
    by (simp add: resolve_anon_supabase anon_supabase_handler_reject truthy_simps
          default_param_simps)
qed

theorem C10_empty_string_config_witness:
  "resolve (supabase \<lparr>SUPABASE_URL = Some ''https://env.test'', SUPABASE_ANON_KEY = Some ''env-key''\<rparr>
          (Some []) (Some [])
          (None :: nat client_options option) :: (nat, string, string) elysia)
        \<lparr>SUPABASE_URL = Some ''https://env.test'', SUPABASE_ANON_KEY = Some ''env-key''\<rparr>
        (\<lambda>c. \<lparr>data_user = Some ''a@b.com'', error = None\<rparr>)
        \<lparr>headers_get = [''Authorization'' \<mapsto> ''Bearer good-token'']\<rparr>
     = (ErrorResponse 500 (Some ''SUPABASE_URL is not set''), [])
   \<and> resolve (anon_supabase \<lparr>SUPABASE_URL = Some ''https://env.test'', SUPABASE_ANON_KEY = Some ''env-key''\<rparr>
          None (Some [])
          (None :: nat client_options option) :: (nat, string, string) elysia)
        \<lparr>SUPABASE_URL = Some ''https://env.test'', SUPABASE_ANON_KEY = Some ''env-key''\<rparr>
        (\<lambda>c. \<lparr>data_user = Some ''a@b.com'', error = None\<rparr>)
        \<lparr>headers_get = [''Authorization'' \<mapsto> ''Bearer good-token'']\<rparr>
     = (ErrorResponse 500 (Some ''SUPABASE_ANON_KEY is not set''), [])"
  using
    C10_empty_string_config [where g = "supabase \<lparr>SUPABASE_URL = Some ''https://env.test'', SUPABASE_ANON_KEY = Some ''env-key''\<rparr> (Some []) (Some []) None"
      and env = "\<lparr>SUPABASE_URL = Some ''https://env.test'', SUPABASE_ANON_KEY = Some ''env-key''\<rparr>"
      and u = "Some []" and k = "Some []"
      and opts = "None :: nat client_options option"
      and rq = "\<lparr>headers_get = [''Authorization'' \<mapsto> ''Bearer good-token'']\<rparr>"
      and en = "\<lparr>SUPABASE_URL = Some ''https://env.test'', SUPABASE_ANON_KEY = Some ''env-key''\<rparr>"
      and be = "\<lambda>c. \<lparr>data_user = Some ''a@b.com'', error = None :: string option\<rparr>"]
    C10_empty_string_config [where g = "anon_supabase \<lparr>SUPABASE_URL = Some ''https://env.test'', SUPABASE_ANON_KEY = Some ''env-key''\<rparr> None (Some []) None"
      and env = "\<lparr>SUPABASE_URL = Some ''https://env.test'', SUPABASE_ANON_KEY = Some ''env-key''\<rparr>"
      and u = None and k = "Some []"
      and opts = "None :: nat client_options option"
      and rq = "\<lparr>headers_get = [''Authorization'' \<mapsto> ''Bearer good-token'']\<rparr>"
      and en = "\<lparr>SUPABASE_URL = Some ''https://env.test'', SUPABASE_ANON_KEY = Some ''env-key''\<rparr>"
      and be = "\<lambda>c. \<lparr>data_user = Some ''a@b.com'', error = None :: string option\<rparr>"]
  by (simp add: truthy_simps default_param_simps)

text \<open>
  Claim C10 as stated gives, for an empty access key, the message of the access key.
  When the endpoint is unresolved as well, the endpoint check answers first.
\<close>

theorem C10_unset_endpoint_counterexample:
  "resolve (supabase \<lparr>SUPABASE_URL = None, SUPABASE_ANON_KEY = Some ''env-key''\<rparr>
          None (Some [])
          (None :: nat client_options option) :: (nat, string, string) elysia)
        \<lparr>SUPABASE_URL = None, SUPABASE_ANON_KEY = Some ''env-key''\<rparr>
        (\<lambda>c. \<lparr>data_user = Some ''a@b.com'', error = None\<rparr>)
        \<lparr>headers_get = [''Authorization'' \<mapsto> ''Bearer good-token'']\<rparr>
     = (ErrorResponse 500 (Some ''SUPABASE_URL is not set''), [])
   \<and> ''SUPABASE_URL is not set'' \<noteq> ''SUPABASE_ANON_KEY is not set''"
  by (simp add: resolve_supabase supabase_handler_reject truthy_simps default_param_simps)

end
